theory Spec2Isabelle
  imports Main "HOL-Library.Word" "HOL-Library.AList"
begin

unbundle bit_operations_syntax

section \<open>Go values and the library functions the client calls\<close>

text \<open>
  A Go string is a sequence of bytes, and \<open>len\<close> counts bytes: it is modelled as a
  \<open>char list\<close> (an Isabelle \<open>char\<close> is one byte) and \<open>len\<close> as \<open>length\<close>. A byte
  slice or array is a list of 8-bit words, \<open>uint32\<close> a 32-bit word, \<open>int64\<close> a 64-bit
  word read through \<open>sint\<close>. A \<open>time.Time\<close> is the number of nanoseconds since the
  Unix epoch.
\<close>

type_synonym byte = "8 word"
type_synonym path = string
type_synonym time = int

subsection \<open>strings.TrimSpace, strings.HasPrefix, strings.TrimPrefix\<close>

text \<open>
  \<open>strings.TrimSpace\<close> removes the leading and the trailing white space of a string, as
  Unicode defines it, reading the string as UTF-8. The white-space code points are the six
  ASCII ones, U+0085, U+00A0, U+1680, U+2000 to U+200A, U+2028, U+2029, U+202F, U+205F and
  U+3000; every other code point and every byte that is not part of a valid encoding stops
  the trimming. \<open>spaceWidth\<close> is the number of bytes of the white-space rune a string
  starts with (0 when it starts with none), \<open>spaceWidthRev\<close> the same for the rune a
  string ends with, read on the reversed bytes.
\<close>

definition asciiSpace :: "char \<Rightarrow> bool" where
  "asciiSpace c = (c = CHR 0x09 \<or> c = CHR 0x0A \<or> c = CHR 0x0B \<or> c = CHR 0x0C
                   \<or> c = CHR 0x0D \<or> c = CHR 0x20)"

definition space3 :: "char \<Rightarrow> char \<Rightarrow> char \<Rightarrow> bool" where
  "space3 b0 b1 b2 =
     ((b0 = CHR 0xE1 \<and> b1 = CHR 0x9A \<and> b2 = CHR 0x80)
      \<or> (b0 = CHR 0xE2 \<and> b1 = CHR 0x80
           \<and> ((128 \<le> (of_char b2 :: nat) \<and> (of_char b2 :: nat) \<le> 138)
                \<or> b2 = CHR 0xA8 \<or> b2 = CHR 0xA9 \<or> b2 = CHR 0xAF))
      \<or> (b0 = CHR 0xE2 \<and> b1 = CHR 0x81 \<and> b2 = CHR 0x9F)
      \<or> (b0 = CHR 0xE3 \<and> b1 = CHR 0x80 \<and> b2 = CHR 0x80))"

definition space2 :: "char \<Rightarrow> char \<Rightarrow> bool" where
  "space2 b0 b1 = (b0 = CHR 0xC2 \<and> (b1 = CHR 0x85 \<or> b1 = CHR 0xA0))"

fun spaceWidth :: "string \<Rightarrow> nat" where
  "spaceWidth [] = 0"
| "spaceWidth [b0] = (if asciiSpace b0 then 1 else 0)"
| "spaceWidth [b0, b1] = (if asciiSpace b0 then 1 else if space2 b0 b1 then 2 else 0)"
| "spaceWidth (b0 # b1 # b2 # bs) =
     (if asciiSpace b0 then 1 else if space2 b0 b1 then 2
      else if space3 b0 b1 b2 then 3 else 0)"

fun spaceWidthRev :: "string \<Rightarrow> nat" where
  "spaceWidthRev [] = 0"
| "spaceWidthRev [b0] = (if asciiSpace b0 then 1 else 0)"
| "spaceWidthRev [b1, b0] = (if asciiSpace b1 then 1 else if space2 b0 b1 then 2 else 0)"
| "spaceWidthRev (b2 # b1 # b0 # bs) =
     (if asciiSpace b2 then 1 else if space2 b1 b2 then 2
      else if space3 b0 b1 b2 then 3 else 0)"

function trimLeft :: "string \<Rightarrow> string" where
  "trimLeft [] = []"
| "trimLeft (c # cs) =
     (if spaceWidth (c # cs) = 0 then c # cs
      else trimLeft (drop (spaceWidth (c # cs) - 1) cs))"
  by pat_completeness auto
termination
  by (relation "measure length") auto

function trimRightRev :: "string \<Rightarrow> string" where
  "trimRightRev [] = []"
| "trimRightRev (c # cs) =
     (if spaceWidthRev (c # cs) = 0 then c # cs
      else trimRightRev (drop (spaceWidthRev (c # cs) - 1) cs))"
  by pat_completeness auto
termination
  by (relation "measure length") auto

definition trimRight :: "string \<Rightarrow> string" where
  "trimRight s = rev (trimRightRev (rev s))"

definition TrimSpace :: "string \<Rightarrow> string" where
  "TrimSpace s = trimRight (trimLeft s)"

definition HasPrefix :: "string \<Rightarrow> string \<Rightarrow> bool" where
  "HasPrefix s pre = (length pre \<le> length s \<and> take (length pre) s = pre)"

definition TrimPrefix :: "string \<Rightarrow> string \<Rightarrow> string" where
  "TrimPrefix s pre = (if HasPrefix s pre then drop (length pre) s else s)"

subsection \<open>encoding/hex\<close>

text \<open>
  A Go \<open>error\<close> value. \<open>fmt.Errorf\<close> keeps its format string and its arguments, a
  wrapped error among them; \<open>InvalidByteError\<close> and \<open>ErrLength\<close> are the two errors of
  \<open>encoding/hex\<close>, \<open>ErrNotExist\<close> is the error \<open>os.IsNotExist\<close> recognises, and
  \<open>ExtError\<close> is any other error of the operating system or of the messaging engine.
  \<open>arg\<close> is an argument of a format string.
\<close>

datatype error =
    Errorf string "arg list"
  | InvalidByteError char
  | ErrLength
  | ErrNotExist
  | ExtError string
and arg = ArgS string | ArgI int | ArgB bool | ArgE error

definition IsNotExist :: "error \<Rightarrow> bool" where
  "IsNotExist err = (err = ErrNotExist)"

definition fromHexChar :: "char \<Rightarrow> byte option" where
  "fromHexChar c =
     (let n = (of_char c :: nat) in
      if 48 \<le> n \<and> n \<le> 57 then Some (of_nat (n - 48))
      else if 97 \<le> n \<and> n \<le> 102 then Some (of_nat (n - 97 + 10))
      else if 65 \<le> n \<and> n \<le> 70 then Some (of_nat (n - 65 + 10))
      else None)"

definition isHexDigit :: "char \<Rightarrow> bool" where
  "isHexDigit c = (fromHexChar c \<noteq> None)"

text \<open>
  \<open>hex.DecodeString\<close> reads the string two characters at a time and stops at the first
  character that is no hexadecimal digit; a string of odd length all of whose characters
  are digits is an error too.
\<close>

fun DecodeString :: "string \<Rightarrow> error + byte list" where
  "DecodeString [] = Inr []"
| "DecodeString [p] =
     (case fromHexChar p of None \<Rightarrow> Inl (InvalidByteError p) | Some a \<Rightarrow> Inl ErrLength)"
| "DecodeString (p # q # rest) =
     (case fromHexChar p of
        None \<Rightarrow> Inl (InvalidByteError p)
      | Some a \<Rightarrow>
          (case fromHexChar q of
             None \<Rightarrow> Inl (InvalidByteError q)
           | Some b \<Rightarrow>
               (case DecodeString rest of
                  Inl e \<Rightarrow> Inl e
                | Inr bs \<Rightarrow> Inr ((push_bit 4 a OR b) # bs))))"

definition hextable :: string where
  "hextable = ''0123456789abcdef''"

definition EncodeToString :: "byte list \<Rightarrow> string" where
  "EncodeToString bs =
     concat (map (\<lambda>b. [hextable ! unat (drop_bit 4 b), hextable ! unat (b AND 0x0f)]) bs)"

text \<open>
  \<open>var publicKey [32]byte; copy(publicKey[:], bs)\<close>: the array starts as 32 zero bytes
  and \<open>copy\<close> overwrites as many of them as \<open>bs\<close> has, 32 at most.
\<close>

definition copy32 :: "byte list \<Rightarrow> byte list" where
  "copy32 bs = take 32 bs @ replicate (32 - length bs) 0"

text \<open>
  The slice expression \<open>s[:n]\<close> of a string panics when \<open>n\<close> is beyond the length of
  the string; \<open>None\<close> is the panic.
\<close>

definition slice_to :: "string \<Rightarrow> nat \<Rightarrow> string option" where
  "slice_to s n = (if n \<le> length s then Some (take n s) else None)"

subsection \<open>path/filepath on a Unix system\<close>

text \<open>
  \<open>filepath.Base\<close> returns the last element of a path: trailing slashes are removed
  first, the empty path gives a dot and a path of slashes only gives one slash.
\<close>

definition stripSlashes :: "string \<Rightarrow> string" where
  "stripSlashes p = rev (dropWhile (\<lambda>c. c = CHR ''/'') (rev p))"

definition Base :: "path \<Rightarrow> string" where
  "Base p =
     (if p = [] then ''.''
      else let q = rev (takeWhile (\<lambda>c. c \<noteq> CHR ''/'') (rev (stripSlashes p)))
           in if q = [] then ''/'' else q)"

text \<open>
  \<open>filepath.Clean\<close> reads the elements of a path from left to right: an empty element
  and a dot are dropped, two dots remove the element before them (at the root they are
  dropped, at the start of a relative path they are kept), every other element is kept.
  \<open>splitSlash\<close> cuts a path at its slashes; \<open>cleanStep\<close> holds the elements kept so
  far, the last one first.
\<close>

fun splitSlash :: "string \<Rightarrow> string list" where
  "splitSlash [] = [[]]"
| "splitSlash (c # cs) =
     (if c = CHR ''/'' then [] # splitSlash cs
      else (case splitSlash cs of e # es \<Rightarrow> (c # e) # es | [] \<Rightarrow> [[c]]))"

fun cleanStep :: "bool \<Rightarrow> string list \<Rightarrow> string \<Rightarrow> string list" where
  "cleanStep rooted out e =
     (if e = [] \<or> e = ''.'' then out
      else if e = ''..'' then
        (case out of
           [] \<Rightarrow> (if rooted then [] else [''..''])
         | t # ts \<Rightarrow> (if t = ''..'' then ''..'' # t # ts else ts))
      else e # out)"

fun joinSlash :: "string list \<Rightarrow> string" where
  "joinSlash [] = []"
| "joinSlash [e] = e"
| "joinSlash (e # es) = e @ ''/'' @ joinSlash es"

definition Clean :: "path \<Rightarrow> path" where
  "Clean p =
     (if p = [] then ''.''
      else let rooted = (hd p = CHR ''/'');
               out = rev (foldl (cleanStep rooted) [] (splitSlash p))
           in if rooted then ''/'' @ joinSlash out
              else if out = [] then ''.'' else joinSlash out)"

text \<open>
  \<open>filepath.Join\<close> skips the empty elements at the front, joins the others with slashes
  and cleans the result; with no element left it returns the empty string.
\<close>

definition Join :: "string list \<Rightarrow> path" where
  "Join elems =
     (case dropWhile (\<lambda>e. e = []) elems of
        [] \<Rightarrow> []
      | es \<Rightarrow> Clean (joinSlash es))"

section \<open>The friend registry of client/client.go\<close>

text \<open>
  \<open>client/client.go\<close> keeps two maps: \<open>friends\<close> from the friend number to the
  record and \<open>friendsByID\<close> from the public key (a string there) back to the number.
  The fields of its \<open>Friend\<close> carry the suffix \<open>_r\<close> where the other \<open>Friend\<close>
  struct of the repository has a field of the same name.
\<close>

record RegFriend =
  Number :: "32 word"
  PublicKey_r :: string
  Name_r :: string
  StatusMsg :: string
  Status_r :: int
  ConnStatus :: int
  LastSeen_r :: time

record Registry =
  friends_r :: "32 word \<rightharpoonup> RegFriend"
  friendsByID :: "string \<rightharpoonup> 32 word"

definition NewRegistry :: Registry where
  "NewRegistry = \<lparr>friends_r = Map.empty, friendsByID = Map.empty\<rparr>"

definition AddFriend :: "RegFriend \<Rightarrow> Registry \<Rightarrow> Registry" where
  "AddFriend friend c =
     c\<lparr>friends_r := (friends_r c)(Number friend \<mapsto> friend),
       friendsByID := (friendsByID c)(PublicKey_r friend \<mapsto> Number friend)\<rparr>"

definition RemoveFriend :: "32 word \<Rightarrow> Registry \<Rightarrow> Registry" where
  "RemoveFriend friendNum c =
     (case friends_r c friendNum of
        Some friend \<Rightarrow>
          c\<lparr>friendsByID := (friendsByID c)(PublicKey_r friend := None),
            friends_r := (friends_r c)(friendNum := None)\<rparr>
      | None \<Rightarrow> c)"

definition GetFriend :: "32 word \<Rightarrow> Registry \<Rightarrow> RegFriend option" where
  "GetFriend friendNum c = friends_r c friendNum"

definition GetFriendByID :: "string \<Rightarrow> Registry \<Rightarrow> RegFriend option" where
  "GetFriendByID publicKey c =
     (case friendsByID c publicKey of
        Some friendNum \<Rightarrow> friends_r c friendNum
      | None \<Rightarrow> None)"

text \<open>
  The two indices agree when every record is stored under its own number and found
  under its key, and every key leads to a record that carries it.
\<close>

definition forward_ok :: "Registry \<Rightarrow> bool" where
  "forward_ok c =
     (\<forall>h. case friends_r c h of
            None \<Rightarrow> True
          | Some f \<Rightarrow> Number f = h \<and> friendsByID c (PublicKey_r f) = Some h)"

definition reverse_ok :: "Registry \<Rightarrow> bool" where
  "reverse_ok c =
     (\<forall>k. case friendsByID c k of
            None \<Rightarrow> True
          | Some h \<Rightarrow> (case friends_r c h of None \<Rightarrow> False | Some f \<Rightarrow> PublicKey_r f = k))"

definition indices_agree :: "Registry \<Rightarrow> bool" where
  "indices_agree c = (forward_ok c \<and> reverse_ok c)"

section \<open>The client of the FIFO gateway: data\<close>

text \<open>
  The structs of the client, of the FIFO manager and of the configuration. A field
  that no function here reads is left out (the buffered reader and writer of a
  \<open>FIFO\<close>, its mutex, the bootstrap nodes of the configuration). \<open>toxcore.MessageType\<close>
  is an integer type of the engine with the two named values the client uses.
\<close>

datatype MessageType = MessageTypeNormal | MessageTypeAction | MessageTypeOther nat

record Config =
  ConfigDir :: string
  Debug :: bool
  Name_cfg :: string
  StatusMessage_cfg :: string
  AutoAcceptFiles :: bool
  MaxFileSize :: "64 word"
  SaveFile :: string

record Friend =
  ID :: "32 word"
  PublicKey :: "byte list"
  Name :: string
  Status :: int
  Online :: bool
  LastSeen :: time

record FIFO =
  Path :: path
  Mode :: "32 word"
  IsInput :: bool
  IsOutput :: bool
  File :: "nat option"
  LastUsed :: time

text \<open>The names of the pipes and the permission bits (octal 0600 and 0700).\<close>

definition RequestIn :: string where "RequestIn = ''request_in''"
definition RequestOut :: string where "RequestOut = ''request_out''"
definition Name_fifo :: string where "Name_fifo = ''name''"
definition StatusMessage_fifo :: string where "StatusMessage_fifo = ''status_message''"
definition ID_fifo :: string where "ID_fifo = ''id''"
definition TextIn :: string where "TextIn = ''text_in''"
definition TextOut :: string where "TextOut = ''text_out''"
definition FileIn :: string where "FileIn = ''file_in''"
definition FileOut :: string where "FileOut = ''file_out''"
definition Status_fifo :: string where "Status_fifo = ''status''"

definition FIFOPermInput :: "32 word" where "FIFOPermInput = 0x180"
definition FIFOPermOutput :: "32 word" where "FIFOPermOutput = 0x180"
definition DirPerm :: "32 word" where "DirPerm = 0x1C0"

text \<open>
  What the file system holds at a path: the kind of the object, its permission bits
  and its size.
\<close>

datatype ftype = RegularFile | Directory | NamedPipe | OtherFile

record node =
  kind :: ftype
  perm :: "32 word"
  size :: "64 word"

text \<open>The calls the client makes on the messaging engine, in the order it makes them.\<close>

datatype engine_call =
    AddFriendByPublicKey "byte list"
  | SendFriendMessage "32 word" string MessageType
  | FileSend "32 word" "32 word" "64 word" "byte list" string
  | SelfSetName string
  | SelfSetStatusMessage string
  | GetSavedata
  | GetFriends

text \<open>
  The state the functions read and change: the configuration, the friends (a Go map;
  an association list here, since two handlers iterate over it), the table of pipe
  descriptors, the file system, the open file handles, the friends whose pipes a
  monitoring goroutine polls, and three traces: the calls made on the engine, the bytes
  written to pipes and the lines logged. The mutexes are not modelled: every function
  is run alone, from its call to its return.
\<close>

record state =
  config :: Config
  friends :: "(32 word \<times> Friend) list"
  fifos :: "path \<rightharpoonup> FIFO"
  fsys :: "path \<rightharpoonup> node"
  open_handles :: "nat set"
  monitored :: "string list"
  engine_calls :: "engine_call list"
  pipe_data :: "(path \<times> string) list"
  logs :: "(string \<times> arg list) list"

text \<open>
  What a function cannot decide by itself, it asks the world: the clock and the time
  zone, whether a call of the operating system fails for a reason the file system of the
  state does not show (permissions, a pipe without a reader, a full pipe), the results of
  the engine, the SHA-256 function and the saving of the configuration. One world
  stands for one call of a handler: the clock does not advance during it.
\<close>

record world =
  now :: time
  zone_offset :: int
  umask :: "32 word"
  os_OpenFile_err :: "path \<Rightarrow> error option"
  os_Fprintln_err :: "path \<Rightarrow> string \<Rightarrow> error option"
  os_Stat_err :: "path \<Rightarrow> error option"
  os_Remove_err :: "path \<Rightarrow> error option"
  os_Mkfifo_err :: "path \<Rightarrow> error option"
  os_Chmod_err :: "path \<Rightarrow> error option"
  os_MkdirAll_err :: "path \<Rightarrow> error option"
  os_WriteFile_err :: "path \<Rightarrow> error option"
  sha256_Sum256 :: "string \<Rightarrow> byte list"
  tox_AddFriendByPublicKey :: "byte list \<Rightarrow> error + 32 word"
  tox_SendFriendMessage :: "32 word \<Rightarrow> string \<Rightarrow> MessageType \<Rightarrow> error option"
  tox_FileSend :: "32 word \<Rightarrow> 32 word \<Rightarrow> 64 word \<Rightarrow> byte list \<Rightarrow> string \<Rightarrow> error + 32 word"
  tox_SelfSetName :: "string \<Rightarrow> error option"
  tox_SelfSetStatusMessage :: "string \<Rightarrow> error option"
  tox_GetSavedata :: "byte list"
  tox_GetFriends :: "32 word \<rightharpoonup> byte list"
  tox_SelfGetAddress :: string
  config_Save_err :: "Config \<Rightarrow> error option"

section \<open>Logging, the engine trace and the operating system\<close>

definition log_Printf :: "string \<Rightarrow> arg list \<Rightarrow> state \<Rightarrow> state" where
  "log_Printf fmt args s = s\<lparr>logs := logs s @ [(fmt, args)]\<rparr>"

definition debug_Printf :: "string \<Rightarrow> arg list \<Rightarrow> state \<Rightarrow> state" where
  "debug_Printf fmt args s = (if Debug (config s) then log_Printf fmt args s else s)"

definition call_engine :: "engine_call \<Rightarrow> state \<Rightarrow> state" where
  "call_engine c s = s\<lparr>engine_calls := engine_calls s @ [c]\<rparr>"

text \<open>
  \<open>os.Remove\<close>: a path that holds nothing gives the error \<open>os.IsNotExist\<close> recognises;
  otherwise the object is removed unless the world refuses.
\<close>

definition os_Remove :: "world \<Rightarrow> path \<Rightarrow> state \<Rightarrow> error option \<times> state" where
  "os_Remove w p s =
     (case fsys s p of
        None \<Rightarrow> (Some ErrNotExist, s)
      | Some n \<Rightarrow>
          (case os_Remove_err w p of
             Some err \<Rightarrow> (Some err, s)
           | None \<Rightarrow> (None, s\<lparr>fsys := (fsys s)(p := None)\<rparr>)))"

text \<open>
  \<open>syscall.Mkfifo\<close>: fails on a path that holds an object; the new pipe has the
  permission bits the umask leaves.
\<close>

definition syscall_Mkfifo :: "world \<Rightarrow> path \<Rightarrow> 32 word \<Rightarrow> state \<Rightarrow> error option \<times> state" where
  "syscall_Mkfifo w p mode s =
     (case fsys s p of
        Some n \<Rightarrow> (Some (ExtError ''file exists''), s)
      | None \<Rightarrow>
          (case os_Mkfifo_err w p of
             Some err \<Rightarrow> (Some err, s)
           | None \<Rightarrow>
               (None, s\<lparr>fsys := (fsys s)(p \<mapsto>
                  \<lparr>kind = NamedPipe, perm = mode AND NOT (umask w), size = 0\<rparr>)\<rparr>)))"

definition os_Chmod :: "world \<Rightarrow> path \<Rightarrow> 32 word \<Rightarrow> state \<Rightarrow> error option \<times> state" where
  "os_Chmod w p mode s =
     (case fsys s p of
        None \<Rightarrow> (Some ErrNotExist, s)
      | Some n \<Rightarrow>
          (case os_Chmod_err w p of
             Some err \<Rightarrow> (Some err, s)
           | None \<Rightarrow> (None, s\<lparr>fsys := (fsys s)(p \<mapsto> n\<lparr>perm := mode\<rparr>)\<rparr>)))"

text \<open>
  \<open>os.MkdirAll\<close>: nothing to do on a directory, an error on any other object; the
  parents of a path are not part of the model.
\<close>

definition os_MkdirAll :: "world \<Rightarrow> path \<Rightarrow> 32 word \<Rightarrow> state \<Rightarrow> error option \<times> state" where
  "os_MkdirAll w p mode s =
     (case os_MkdirAll_err w p of
        Some err \<Rightarrow> (Some err, s)
      | None \<Rightarrow>
          (case fsys s p of
             Some n \<Rightarrow>
               (if kind n = Directory then (None, s)
                else (Some (ExtError ''not a directory''), s))
           | None \<Rightarrow>
               (None, s\<lparr>fsys := (fsys s)(p \<mapsto>
                  \<lparr>kind = Directory, perm = mode AND NOT (umask w), size = 0\<rparr>)\<rparr>)))"

text \<open>
  \<open>os.WriteFile\<close>: writes a regular file of the length of the data; an existing file
  keeps its permission bits, a directory cannot be written.
\<close>

definition os_WriteFile :: "world \<Rightarrow> path \<Rightarrow> nat \<Rightarrow> 32 word \<Rightarrow> state \<Rightarrow> error option \<times> state" where
  "os_WriteFile w p len mode s =
     (case os_WriteFile_err w p of
        Some err \<Rightarrow> (Some err, s)
      | None \<Rightarrow>
          (case fsys s p of
             Some n \<Rightarrow>
               (if kind n = Directory then (Some (ExtError ''is a directory''), s)
                else (None, s\<lparr>fsys := (fsys s)(p \<mapsto> n\<lparr>size := of_nat len\<rparr>)\<rparr>))
           | None \<Rightarrow>
               (None, s\<lparr>fsys := (fsys s)(p \<mapsto>
                  \<lparr>kind = RegularFile, perm = mode AND NOT (umask w), size = of_nat len\<rparr>)\<rparr>)))"

definition os_Stat :: "world \<Rightarrow> path \<Rightarrow> state \<Rightarrow> error + node" where
  "os_Stat w p s =
     (case os_Stat_err w p of
        Some err \<Rightarrow> Inl err
      | None \<Rightarrow> (case fsys s p of None \<Rightarrow> Inl ErrNotExist | Some n \<Rightarrow> Inr n))"

definition IsDir :: "node \<Rightarrow> bool" where
  "IsDir n = (kind n = Directory)"

section \<open>config: the paths\<close>

definition FriendDir :: "Config \<Rightarrow> string \<Rightarrow> path" where
  "FriendDir c friendID = Join [ConfigDir c, friendID]"

definition GlobalFIFOPath :: "Config \<Rightarrow> string \<Rightarrow> path" where
  "GlobalFIFOPath c name = Join [ConfigDir c, ''client'', name]"

definition FriendFIFOPath :: "Config \<Rightarrow> string \<Rightarrow> string \<Rightarrow> path" where
  "FriendFIFOPath c friendID fifoName = Join [FriendDir c friendID, fifoName]"

section \<open>client/fifo.go: creating, writing and sweeping pipes\<close>

text \<open>
  \<open>createFIFO\<close>, in the order of the source: release what is registered at the path
  (close its handle, delete its entry), remove the object at the path, make the pipe,
  set its permission bits, register the new descriptor. The result is the error
  returned (\<open>None\<close> is \<open>nil\<close>) and the state the call leaves.
\<close>

definition releaseFIFO :: "path \<Rightarrow> state \<Rightarrow> state" where
  "releaseFIFO path s =
     (case fifos s path of
        Some existingFIFO \<Rightarrow>
          s\<lparr>open_handles :=
              (case File existingFIFO of
                 Some h \<Rightarrow> open_handles s - {h}
               | None \<Rightarrow> open_handles s),
            fifos := (fifos s)(path := None)\<rparr>
      | None \<Rightarrow> s)"

definition removeBlocks :: "error option \<Rightarrow> error option" where
  "removeBlocks rerr =
     (case rerr of
        Some err \<Rightarrow> (if \<not> IsNotExist err then Some err else None)
      | None \<Rightarrow> None)"

definition createFIFO :: "world \<Rightarrow> path \<Rightarrow> bool \<Rightarrow> bool \<Rightarrow> state \<Rightarrow> error option \<times> state" where
  "createFIFO w path isInput isOutput s =
     (let s1 = releaseFIFO path s;
          (rerr, s2) = os_Remove w path s1
      in case removeBlocks rerr of
           Some err \<Rightarrow> (Some (Errorf ''failed to remove existing FIFO: %w'' [ArgE err]), s2)
         | None \<Rightarrow>
             (let perm = (if isInput then FIFOPermInput
                          else if isOutput then FIFOPermOutput else 0x180);
                  (merr, s3) = syscall_Mkfifo w path perm s2
              in case merr of
                   Some err \<Rightarrow> (Some (Errorf ''failed to create FIFO: %w'' [ArgE err]), s3)
                 | None \<Rightarrow>
                     (let (cerr, s4) = os_Chmod w path perm s3
                      in case cerr of
                           Some err \<Rightarrow>
                             (Some (Errorf ''failed to set FIFO permissions: %w'' [ArgE err]), s4)
                         | None \<Rightarrow>
                             (None,
                              debug_Printf ''Created FIFO: %s (input: %v, output: %v)''
                                [ArgS path, ArgB isInput, ArgB isOutput]
                                (s4\<lparr>fifos := (fifos s4)(path \<mapsto>
                                   \<lparr>Path = path, Mode = perm, IsInput = isInput,
                                    IsOutput = isOutput, File = None,
                                    LastUsed = now w\<rparr>)\<rparr>)))))"

text \<open>The loop over a table of pipes, shared by the global and the per-friend set.\<close>

fun createFIFOs :: "world \<Rightarrow> (string \<Rightarrow> path) \<Rightarrow> (string \<times> bool \<times> bool) list \<Rightarrow> state
    \<Rightarrow> error option \<times> state" where
  "createFIFOs w pathOf [] s = (None, s)"
| "createFIFOs w pathOf ((name, isInput, isOutput) # rest) s =
     (case createFIFO w (pathOf name) isInput isOutput s of
        (Some err, s') \<Rightarrow>
          (Some (Errorf ''failed to create FIFO %s: %w'' [ArgS name, ArgE err]), s')
      | (None, s') \<Rightarrow> createFIFOs w pathOf rest s')"

definition globalFIFOs :: "(string \<times> bool \<times> bool) list" where
  "globalFIFOs =
     [(RequestIn, True, False), (RequestOut, False, True),
      (Name_fifo, True, False), (StatusMessage_fifo, True, False)]"

definition friendFIFOs :: "(string \<times> bool \<times> bool) list" where
  "friendFIFOs =
     [(TextIn, True, False), (TextOut, False, True), (FileIn, True, False),
      (FileOut, False, True), (Status_fifo, False, True)]"

definition GetToxID :: "world \<Rightarrow> string" where
  "GetToxID w = tox_SelfGetAddress w"

definition createIDFile :: "world \<Rightarrow> state \<Rightarrow> error option \<times> state" where
  "createIDFile w s =
     (let idPath = GlobalFIFOPath (config s) ID_fifo;
          toxID = GetToxID w;
          (err, s1) = os_WriteFile w idPath (length (toxID @ [CHR 0x0A])) 0x1A4 s
      in case err of
           Some e \<Rightarrow> (Some (Errorf ''failed to write ID file: %w'' [ArgE e]), s1)
         | None \<Rightarrow> (None, debug_Printf ''Created ID file: %s'' [ArgS idPath] s1))"

definition createGlobalFIFOs :: "world \<Rightarrow> state \<Rightarrow> error option \<times> state" where
  "createGlobalFIFOs w s =
     (let clientDir = Join [ConfigDir (config s), ''client''];
          (derr, s1) = os_MkdirAll w clientDir DirPerm s
      in case derr of
           Some e \<Rightarrow> (Some (Errorf ''failed to create client directory: %w'' [ArgE e]), s1)
         | None \<Rightarrow>
             (case createFIFOs w (GlobalFIFOPath (config s1)) globalFIFOs s1 of
                (Some e, s2) \<Rightarrow> (Some e, s2)
              | (None, s2) \<Rightarrow>
                  (case createIDFile w s2 of
                     (Some e, s3) \<Rightarrow> (Some (Errorf ''failed to create ID file: %w'' [ArgE e]), s3)
                   | (None, s3) \<Rightarrow> (None, s3))))"

text \<open>
  \<open>CreateFriendFIFOs\<close> ends by starting the goroutine that polls the friend's input
  pipes; the model records the friend in \<open>monitored\<close>.
\<close>

definition CreateFriendFIFOs :: "world \<Rightarrow> string \<Rightarrow> state \<Rightarrow> error option \<times> state" where
  "CreateFriendFIFOs w friendID s =
     (let friendDir = FriendDir (config s) friendID;
          (derr, s1) = os_MkdirAll w friendDir DirPerm s
      in case derr of
           Some e \<Rightarrow> (Some (Errorf ''failed to create friend directory: %w'' [ArgE e]), s1)
         | None \<Rightarrow>
             (case createFIFOs w (FriendFIFOPath (config s1) friendID) friendFIFOs s1 of
                (Some e, s2) \<Rightarrow> (Some e, s2)
              | (None, s2) \<Rightarrow> (None, s2\<lparr>monitored := monitored s2 @ [friendID]\<rparr>)))"

text \<open>
  \<open>writeFIFO\<close>: the descriptor must be registered and be an output descriptor; the pipe
  is opened for writing without blocking, which fails on a path that holds nothing and
  whenever the world says so (no reader attached); the data and a newline are written,
  the file is closed on every way out, and the time of last use is set after a write
  that succeeded. A write that fails is taken to write nothing.
\<close>

definition os_OpenFile :: "world \<Rightarrow> path \<Rightarrow> state \<Rightarrow> error option" where
  "os_OpenFile w p s =
     (case fsys s p of None \<Rightarrow> Some ErrNotExist | Some n \<Rightarrow> os_OpenFile_err w p)"

definition writeFIFO :: "world \<Rightarrow> path \<Rightarrow> string \<Rightarrow> state \<Rightarrow> error option \<times> state" where
  "writeFIFO w path data s =
     (case fifos s path of
        None \<Rightarrow> (Some (Errorf ''FIFO not found: %s'' [ArgS path]), s)
      | Some fifo \<Rightarrow>
          (if \<not> IsOutput fifo
           then (Some (Errorf ''FIFO is not an output FIFO: %s'' [ArgS path]), s)
           else
             (case os_OpenFile w path s of
                Some err \<Rightarrow> (Some (Errorf ''failed to open FIFO for writing: %w'' [ArgE err]), s)
              | None \<Rightarrow>
                  (case os_Fprintln_err w path data of
                     Some err \<Rightarrow> (Some (Errorf ''failed to write to FIFO: %w'' [ArgE err]), s)
                   | None \<Rightarrow>
                       (None,
                        s\<lparr>pipe_data := pipe_data s @ [(path, data @ [CHR 0x0A])],
                          fifos := (fifos s)(path \<mapsto> fifo\<lparr>LastUsed := now w\<rparr>)\<rparr>)))))"

definition WriteRequestOut :: "world \<Rightarrow> string \<Rightarrow> string \<Rightarrow> state \<Rightarrow> error option \<times> state" where
  "WriteRequestOut w friendID message s =
     writeFIFO w (GlobalFIFOPath (config s) RequestOut) (friendID @ '' '' @ message) s"

definition WriteFriendTextOut :: "world \<Rightarrow> string \<Rightarrow> string \<Rightarrow> state \<Rightarrow> error option \<times> state" where
  "WriteFriendTextOut w friendID message s =
     writeFIFO w (FriendFIFOPath (config s) friendID TextOut) message s"

definition WriteFriendStatus :: "world \<Rightarrow> string \<Rightarrow> string \<Rightarrow> state \<Rightarrow> error option \<times> state" where
  "WriteFriendStatus w friendID status s =
     writeFIFO w (FriendFIFOPath (config s) friendID Status_fifo) status s"

definition WriteFriendFileOut :: "world \<Rightarrow> string \<Rightarrow> string \<Rightarrow> state \<Rightarrow> error option \<times> state" where
  "WriteFriendFileOut w friendID fileInfo s =
     writeFIFO w (FriendFIFOPath (config s) friendID FileOut) fileInfo s"

text \<open>
  The sweep. \<open>Minute\<close> is \<open>time.Minute\<close> in nanoseconds. The loop of the source
  deletes, in the order the runtime picks, every entry that is idle and not global;
  the table it leaves does not depend on the order. Its debug lines, one per deleted
  entry in that order, are not part of the model.
\<close>

definition Minute :: int where
  "Minute = 60 * 1000000000"

definition isGlobalFIFO :: "path \<Rightarrow> bool" where
  "isGlobalFIFO path =
     (let name = Base path
      in name = RequestIn \<or> name = RequestOut \<or> name = Name_fifo \<or> name = StatusMessage_fifo)"

definition cleanupUnusedFIFOs :: "world \<Rightarrow> state \<Rightarrow> state" where
  "cleanupUnusedFIFOs w s =
     (let cutoff = now w + (- 30 * Minute)
      in s\<lparr>fifos := (\<lambda>path.
              case fifos s path of
                None \<Rightarrow> None
              | Some fifo \<Rightarrow>
                  (if LastUsed fifo < cutoff \<and> \<not> isGlobalFIFO path then None
                   else Some fifo))\<rparr>)"

text \<open>
  \<open>periodicCleanup\<close> runs the sweep at every tick of a ticker of five minutes until the
  context is done: one world per tick.
\<close>

definition sweepInterval :: int where
  "sweepInterval = 5 * Minute"

fun periodicCleanup :: "world list \<Rightarrow> state \<Rightarrow> state" where
  "periodicCleanup [] s = s"
| "periodicCleanup (w # ticks) s = periodicCleanup ticks (cleanupUnusedFIFOs w s)"

fun ticker_ok :: "time \<Rightarrow> world list \<Rightarrow> bool" where
  "ticker_ok start [] = True"
| "ticker_ok start (w # ticks) =
     (now w = start + sweepInterval \<and> ticker_ok (start + sweepInterval) ticks)"

section \<open>The client: sending, accepting, the own profile\<close>

definition saveToxData :: "world \<Rightarrow> state \<Rightarrow> state" where
  "saveToxData w s =
     (let saveData = tox_GetSavedata w;
          s1 = call_engine GetSavedata s;
          (err, s2) = os_WriteFile w (SaveFile (config s1)) (length saveData) 0x180 s1
      in case err of
           Some e \<Rightarrow> log_Printf ''Error saving Tox data: %v'' [ArgE e] s2
         | None \<Rightarrow> debug_Printf ''Tox data saved to %s'' [ArgS (SaveFile (config s2))] s2)"

definition SendMessage :: "world \<Rightarrow> 32 word \<Rightarrow> string \<Rightarrow> MessageType \<Rightarrow> state
    \<Rightarrow> error option \<times> state" where
  "SendMessage w friendID message messageType s =
     (if length message = 0 then (Some (Errorf ''message cannot be empty'' []), s)
      else if length message > 1372
      then (Some (Errorf ''message too long (max 1372 bytes)'' []), s)
      else (tox_SendFriendMessage w friendID message messageType,
            call_engine (SendFriendMessage friendID message messageType) s))"

text \<open>
  \<open>AcceptFriendRequest\<close> returns the friend number and the error; the number is 0 with
  an error.
\<close>

definition AcceptFriendRequest :: "world \<Rightarrow> byte list \<Rightarrow> state
    \<Rightarrow> (32 word \<times> error option) \<times> state" where
  "AcceptFriendRequest w publicKey s =
     (let s0 = call_engine (AddFriendByPublicKey publicKey) s
      in case tox_AddFriendByPublicKey w publicKey of
           Inl err \<Rightarrow> ((0, Some err), s0)
         | Inr friendID \<Rightarrow>
             (let friend = \<lparr>ID = friendID, PublicKey = publicKey, Name = ''Unknown'',
                            Status = 0, Online = False, LastSeen = now w\<rparr>;
                  s1 = s0\<lparr>friends := AList.update friendID friend (friends s0)\<rparr>;
                  friendIDStr = EncodeToString (PublicKey friend);
                  (ferr, s2) = CreateFriendFIFOs w friendIDStr s1;
                  s3 = (case ferr of
                          Some e \<Rightarrow>
                            log_Printf ''Warning: failed to create FIFOs for friend %s: %v''
                              [ArgS friendIDStr, ArgE e] s2
                        | None \<Rightarrow> s2);
                  s4 = saveToxData w s3
              in ((friendID, None),
                  debug_Printf ''Accepted friend request: %s'' [ArgS friendIDStr] s4)))"

definition UpdateSelfName :: "world \<Rightarrow> string \<Rightarrow> state \<Rightarrow> error option \<times> state" where
  "UpdateSelfName w name s =
     (let s0 = call_engine (SelfSetName name) s
      in case tox_SelfSetName w name of
           Some err \<Rightarrow> (Some err, s0)
         | None \<Rightarrow>
             (let s1 = s0\<lparr>config := (config s0)\<lparr>Name_cfg := name\<rparr>\<rparr>
              in (config_Save_err w (config s1), s1)))"

definition UpdateSelfStatusMessage :: "world \<Rightarrow> string \<Rightarrow> state \<Rightarrow> error option \<times> state" where
  "UpdateSelfStatusMessage w message s =
     (let s0 = call_engine (SelfSetStatusMessage message) s
      in case tox_SelfSetStatusMessage w message of
           Some err \<Rightarrow> (Some err, s0)
         | None \<Rightarrow>
             (let s1 = s0\<lparr>config := (config s0)\<lparr>StatusMessage_cfg := message\<rparr>\<rparr>
              in (config_Save_err w (config s1), s1)))"

section \<open>client/fifo.go: the handlers of the input pipes\<close>

text \<open>
  A handler returns the state it leaves. \<open>handleRequestIn\<close> holds the one slice
  expression of the handlers, so its result is an option: \<open>None\<close> is the panic that
  would end the process.
\<close>

definition handleRequestIn :: "world \<Rightarrow> string \<Rightarrow> state \<Rightarrow> state option" where
  "handleRequestIn w toxID0 s =
     (let toxID = TrimSpace toxID0;
          publicKeyHex =
            (if length toxID = 64 then Some (Some toxID)
             else if length toxID = 76 then map_option Some (slice_to toxID 64)
             else Some None)
      in case publicKeyHex of
           None \<Rightarrow> None
         | Some None \<Rightarrow>
             Some (log_Printf ''Invalid Tox ID format: expected 64 or 76 characters, got %d''
                     [ArgI (int (length toxID))] s)
         | Some (Some keyHex) \<Rightarrow>
             (case DecodeString keyHex of
                Inl err \<Rightarrow> Some (log_Printf ''Invalid public key in Tox ID: %v'' [ArgE err] s)
              | Inr publicKeyBytes \<Rightarrow>
                  (let publicKey = copy32 publicKeyBytes
                   in case AcceptFriendRequest w publicKey s of
                        ((n, Some err), s1) \<Rightarrow>
                          Some (log_Printf ''Failed to accept friend request: %v'' [ArgE err] s1)
                      | ((n, None), s1) \<Rightarrow> Some s1)))"

definition handleNameChange :: "world \<Rightarrow> string \<Rightarrow> state \<Rightarrow> state" where
  "handleNameChange w name0 s =
     (let name = TrimSpace name0
      in if length name = 0 then log_Printf ''Empty name provided'' [] s
         else case UpdateSelfName w name s of
                (Some err, s1) \<Rightarrow> log_Printf ''Failed to update name: %v'' [ArgE err] s1
              | (None, s1) \<Rightarrow> s1)"

definition handleStatusMessageChange :: "world \<Rightarrow> string \<Rightarrow> state \<Rightarrow> state" where
  "handleStatusMessageChange w message0 s =
     (let message = TrimSpace message0
      in case UpdateSelfStatusMessage w message s of
           (Some err, s1) \<Rightarrow> log_Printf ''Failed to update status message: %v'' [ArgE err] s1
         | (None, s1) \<Rightarrow> s1)"

text \<open>
  The loop that looks a friend up by its key. Go visits the entries of a map in an
  order of its choice; the model visits them in the order of the list, so that with two
  friends of one key it returns the number of the first. Whether a friend is found does
  not depend on the order.
\<close>

definition findFriendNum :: "byte list \<Rightarrow> (32 word \<times> Friend) list \<Rightarrow> 32 word option" where
  "findFriendNum publicKey fs =
     map_option (\<lambda>(k, friend). ID friend)
       (find (\<lambda>(k, friend). PublicKey friend = publicKey) fs)"

definition handleFriendTextIn :: "world \<Rightarrow> string \<Rightarrow> string \<Rightarrow> state \<Rightarrow> state" where
  "handleFriendTextIn w friendID message0 s =
     (let message = TrimSpace message0
      in if length message = 0 then s
         else case DecodeString friendID of
           Inl err \<Rightarrow> log_Printf ''Invalid friend ID: %v'' [ArgE err] s
         | Inr publicKeyBytes \<Rightarrow>
             (if length publicKeyBytes \<noteq> 32
              then log_Printf ''Invalid friend ID length: expected 32 bytes, got %d''
                     [ArgI (int (length publicKeyBytes))] s
              else case findFriendNum (copy32 publicKeyBytes) (friends s) of
                None \<Rightarrow> log_Printf ''Friend not found: %s'' [ArgS friendID] s
              | Some friendNum \<Rightarrow>
                  (let (messageType, message1) =
                         (if HasPrefix message ''/me ''
                          then (MessageTypeAction, TrimPrefix message ''/me '')
                          else (MessageTypeNormal, message))
                   in case SendMessage w friendNum message1 messageType s of
                        (Some err, s1) \<Rightarrow>
                          log_Printf ''Failed to send message to friend %s: %v''
                            [ArgS friendID, ArgE err] s1
                      | (None, s1) \<Rightarrow> s1)))"

text \<open>
  \<open>uint64(fileInfo.Size())\<close> and \<open>int64(fileSize)\<close> keep the 64 bits of the size; the
  comparison with the maximum is the signed one.
\<close>

definition handleFriendFileIn :: "world \<Rightarrow> string \<Rightarrow> string \<Rightarrow> state \<Rightarrow> state" where
  "handleFriendFileIn w friendID filePath0 s =
     (let filePath = TrimSpace filePath0
      in if length filePath = 0 then s
         else
          (let s0 = log_Printf ''File transfer request for %s: %s''
                      [ArgS friendID, ArgS filePath] s
           in case DecodeString friendID of
             Inl err \<Rightarrow> log_Printf ''Invalid friend ID: %v'' [ArgE err] s0
           | Inr publicKeyBytes \<Rightarrow>
              (if length publicKeyBytes \<noteq> 32
               then log_Printf ''Invalid friend ID length: expected 32 bytes, got %d''
                      [ArgI (int (length publicKeyBytes))] s0
               else case findFriendNum (copy32 publicKeyBytes) (friends s0) of
                 None \<Rightarrow> log_Printf ''Friend not found: %s'' [ArgS friendID] s0
               | Some friendNum \<Rightarrow>
                  (case os_Stat w filePath s0 of
                     Inl err \<Rightarrow> log_Printf ''File not found or inaccessible: %v'' [ArgE err] s0
                   | Inr fileInfo \<Rightarrow>
                      (if IsDir fileInfo
                       then log_Printf ''Cannot send directory: %s'' [ArgS filePath] s0
                       else
                        (let fileSize = size fileInfo;
                             maxSize = MaxFileSize (config s0)
                         in if 0 < sint maxSize \<and> sint maxSize < sint fileSize
                            then log_Printf ''File too large (%d bytes), maximum allowed: %d''
                                   [ArgI (uint fileSize), ArgI (sint maxSize)] s0
                            else
                             (let fileID = sha256_Sum256 w filePath;
                                  filename = Base filePath;
                                  s1 = call_engine
                                         (FileSend friendNum 0 fileSize fileID filename) s0
                              in case tox_FileSend w friendNum 0 fileSize fileID filename of
                                   Inl err \<Rightarrow>
                                     log_Printf ''Failed to initiate file transfer: %v''
                                       [ArgE err] s1
                                 | Inr transferID \<Rightarrow>
                                     log_Printf
                                       ''File transfer initiated: %s (%d bytes) to friend %d, transfer ID: %d''
                                       [ArgS filename, ArgI (uint fileSize),
                                        ArgI (uint friendNum), ArgI (uint transferID)]
                                       s1)))))))"

text \<open>
  \<open>readFIFO\<close>, once the pipe is open: every complete line is trimmed and, unless it is
  empty, handed to the handler; then the next line is read. The five input pipes and
  the handler of each.
\<close>

datatype input_pipe = PRequestIn | PName | PStatusMessage | PTextIn string | PFileIn string

definition handler_of :: "world \<Rightarrow> input_pipe \<Rightarrow> string \<Rightarrow> state \<Rightarrow> state option" where
  "handler_of w pipe line s =
     (case pipe of
        PRequestIn \<Rightarrow> handleRequestIn w line s
      | PName \<Rightarrow> Some (handleNameChange w line s)
      | PStatusMessage \<Rightarrow> Some (handleStatusMessageChange w line s)
      | PTextIn friendID \<Rightarrow> Some (handleFriendTextIn w friendID line s)
      | PFileIn friendID \<Rightarrow> Some (handleFriendFileIn w friendID line s))"

fun readFIFO :: "world \<Rightarrow> input_pipe \<Rightarrow> string list \<Rightarrow> state \<Rightarrow> state option" where
  "readFIFO w pipe [] s = Some s"
| "readFIFO w pipe (line0 # rest) s =
     (let line = TrimSpace line0
      in if line \<noteq> []
         then (case handler_of w pipe line s of
                 None \<Rightarrow> None
               | Some s' \<Rightarrow> readFIFO w pipe rest s')
         else readFIFO w pipe rest s)"

section \<open>client/handlers.go: the handlers of the engine's events\<close>

text \<open>
  \<open>time.Now().Format("15:04:05")\<close>: the hour, the minute and the second of the local
  time, two digits each.
\<close>

definition pad2 :: "nat \<Rightarrow> string" where
  "pad2 n = [char_of (48 + n div 10 mod 10), char_of (48 + n mod 10)]"

definition Format_150405 :: "world \<Rightarrow> time \<Rightarrow> string" where
  "Format_150405 w t =
     (let secs = nat ((t div 1000000000 + zone_offset w) mod 86400)
      in pad2 (secs div 3600) @ '':'' @ pad2 (secs div 60 mod 60) @ '':'' @ pad2 (secs mod 60))"

definition handleFriendRequest :: "world \<Rightarrow> byte list \<Rightarrow> string \<Rightarrow> state \<Rightarrow> state" where
  "handleFriendRequest w publicKey message s =
     (let s0 = debug_Printf ''Friend request from %s: %s''
                 [ArgS (EncodeToString publicKey), ArgS message] s;
          friendIDStr = EncodeToString publicKey
      in case WriteRequestOut w friendIDStr message s0 of
           (Some err, s1) \<Rightarrow>
             log_Printf ''Failed to write friend request to FIFO: %v'' [ArgE err] s1
         | (None, s1) \<Rightarrow> s1)"

text \<open>
  \<open>handleFriendMessage\<close>: the two \<open>Sprintf\<close> formats are \<open>"[%s] * %s %s"\<close> for an
  action and \<open>"[%s] <%s> %s"\<close> for every other kind. The friend is a pointer into the
  map, so the new time of last sight is seen through the map.
\<close>

definition handleFriendMessage :: "world \<Rightarrow> 32 word \<Rightarrow> string \<Rightarrow> MessageType \<Rightarrow> state \<Rightarrow> state" where
  "handleFriendMessage w friendID message messageType s =
     (case map_of (friends s) friendID of
        None \<Rightarrow> log_Printf ''Received message from unknown friend %d'' [ArgI (uint friendID)] s
      | Some friend0 \<Rightarrow>
          (let friend = friend0\<lparr>LastSeen := now w\<rparr>;
               s1 = s\<lparr>friends := AList.update friendID friend (friends s)\<rparr>;
               timestamp = Format_150405 w (now w);
               formattedMessage =
                 (case messageType of
                    MessageTypeAction \<Rightarrow>
                      ''['' @ timestamp @ ''] * '' @ Name friend @ '' '' @ message
                  | _ \<Rightarrow> ''['' @ timestamp @ ''] <'' @ Name friend @ ''> '' @ message);
               friendIDStr = EncodeToString (PublicKey friend);
               (err, s2) = WriteFriendTextOut w friendIDStr formattedMessage s1;
               s3 = (case err of
                       Some e \<Rightarrow>
                         log_Printf ''Failed to write message to text_out FIFO: %v'' [ArgE e] s2
                     | None \<Rightarrow> s2)
           in debug_Printf ''Message from %s (%d): %s''
                [ArgS (Name friend), ArgI (uint friendID), ArgS message] s3))"

definition zeroKey :: "byte list" where
  "zeroKey = replicate 32 0"

definition handleFriendNameChange :: "world \<Rightarrow> 32 word \<Rightarrow> string \<Rightarrow> state \<Rightarrow> state" where
  "handleFriendNameChange w friendID name s =
     (case map_of (friends s) friendID of
        None \<Rightarrow> s
      | Some friend0 \<Rightarrow>
          (let friend1 = friend0\<lparr>Name := name\<rparr>;
               (friend, s0) =
                 (if PublicKey friend1 = zeroKey
                  then (case tox_GetFriends w friendID of
                          Some key \<Rightarrow> (friend1\<lparr>PublicKey := key\<rparr>, call_engine GetFriends s)
                        | None \<Rightarrow> (friend1, call_engine GetFriends s))
                  else (friend1, s));
               s1 = s0\<lparr>friends := AList.update friendID friend (friends s0)\<rparr>;
               s2 = (if PublicKey friend \<noteq> zeroKey
                     then (let friendIDStr = EncodeToString (PublicKey friend)
                           in case CreateFriendFIFOs w friendIDStr s1 of
                                (Some e, s') \<Rightarrow>
                                  log_Printf ''Warning: failed to create FIFOs for friend %s: %v''
                                    [ArgS friendIDStr, ArgE e] s'
                              | (None, s') \<Rightarrow> s')
                     else s1)
           in debug_Printf ''Friend %d changed name to: %s''
                [ArgI (uint friendID), ArgS name] s2))"

text \<open>
  \<open>handleFriendStatusChange\<close>: the status is stored and mapped to a word, \<open>offline\<close>
  for every value but 0, 1 and 2.
\<close>

definition statusStr_of :: "int \<Rightarrow> string" where
  "statusStr_of status =
     (if status = 0 then ''online''
      else if status = 1 then ''away''
      else if status = 2 then ''busy''
      else ''offline'')"

definition handleFriendStatusChange :: "world \<Rightarrow> 32 word \<Rightarrow> int \<Rightarrow> state \<Rightarrow> state" where
  "handleFriendStatusChange w friendID status s =
     (case map_of (friends s) friendID of
        None \<Rightarrow> s
      | Some friend0 \<Rightarrow>
          (let friend = friend0\<lparr>Status := status\<rparr>;
               s1 = s\<lparr>friends := AList.update friendID friend (friends s)\<rparr>;
               friendIDStr = EncodeToString (PublicKey friend);
               statusStr = statusStr_of status;
               (err, s2) = WriteFriendStatus w friendIDStr statusStr s1;
               s3 = (case err of
                       Some e \<Rightarrow>
                         log_Printf ''Failed to write friend status to FIFO: %v'' [ArgE e] s2
                     | None \<Rightarrow> s2)
           in debug_Printf ''Friend %s (%d) status changed to: %s''
                [ArgS (Name friend), ArgI (uint friendID), ArgS statusStr] s3))"

text \<open>
  \<open>handleFileReceive\<close>; \<open>decimal\<close> prints a number as \<open>%d\<close> does. The two handlers of
  file chunks only log, and only with the debug flag.
\<close>

fun decimal_digits :: "nat \<Rightarrow> nat \<Rightarrow> string" where
  "decimal_digits 0 n = []"
| "decimal_digits (Suc fuel) n =
     (if n < 10 then [char_of (48 + n)]
      else decimal_digits fuel (n div 10) @ [char_of (48 + n mod 10)])"

definition decimal :: "nat \<Rightarrow> string" where
  "decimal n = decimal_digits (Suc n) n"

definition handleFileReceive :: "world \<Rightarrow> 32 word \<Rightarrow> 32 word \<Rightarrow> int \<Rightarrow> 64 word \<Rightarrow> string
    \<Rightarrow> state \<Rightarrow> state" where
  "handleFileReceive w friendID fileNumber knd fileSize filename s =
     (case map_of (friends s) friendID of
        None \<Rightarrow> log_Printf ''File receive from unknown friend %d'' [ArgI (uint friendID)] s
      | Some friend \<Rightarrow>
          (let s0 = debug_Printf ''File receive from %s: %s (%d bytes)''
                      [ArgS (Name friend), ArgS filename, ArgI (uint fileSize)] s;
               maxSize = MaxFileSize (config s0)
           in if 0 < sint maxSize \<and> sint maxSize < sint fileSize
              then log_Printf ''File too large (%d bytes), rejecting'' [ArgI (uint fileSize)] s0
              else
               (let friendIDStr = EncodeToString (PublicKey friend);
                    fileInfo = filename @ '' '' @ decimal (unat fileSize);
                    (err, s1) = WriteFriendFileOut w friendIDStr fileInfo s0;
                    s2 = (case err of
                            Some e \<Rightarrow>
                              log_Printf ''Failed to write file receive notification: %v''
                                [ArgE e] s1
                          | None \<Rightarrow> s1)
                in if AutoAcceptFiles (config s2)
                   then log_Printf ''Auto-accepted file transfer: %s'' [ArgS filename] s2
                   else s2)))"

definition handleFileReceiveChunk :: "world \<Rightarrow> 32 word \<Rightarrow> 32 word \<Rightarrow> 64 word \<Rightarrow> byte list
    \<Rightarrow> state \<Rightarrow> state" where
  "handleFileReceiveChunk w friendID fileNumber position dat s =
     (case map_of (friends s) friendID of
        None \<Rightarrow> s
      | Some friend \<Rightarrow>
          debug_Printf ''File chunk from %s: file %d, position %d, size %d''
            [ArgS (Name friend), ArgI (uint fileNumber), ArgI (uint position),
             ArgI (int (length dat))] s)"

definition handleFileChunkRequest :: "world \<Rightarrow> 32 word \<Rightarrow> 32 word \<Rightarrow> 64 word \<Rightarrow> int
    \<Rightarrow> state \<Rightarrow> state" where
  "handleFileChunkRequest w friendID fileNumber position len s =
     (case map_of (friends s) friendID of
        None \<Rightarrow> s
      | Some friend \<Rightarrow>
          debug_Printf ''File chunk request from %s: file %d, position %d, length %d''
            [ArgS (Name friend), ArgI (uint fileNumber), ArgI (uint position), ArgI len] s)"

text \<open>
  The events of the engine and \<open>setupCallbacks\<close>: the handler the client registers for
  an event, \<open>None\<close> for an event it registers nothing for. The source registers six
  callbacks; the registration for the presence of a friend stands in a comment, under a
  note that its signature is still to be fixed. The engine calls the callback of an
  event if there is one: \<open>deliver\<close>.
\<close>

datatype tox_event =
    EvFriendRequest "byte list" string
  | EvFriendMessage "32 word" string MessageType
  | EvFriendName "32 word" string
  | EvFriendStatus "32 word" int
  | EvFriendStatusMessage "32 word" string
  | EvFriendConnectionStatus "32 word" int
  | EvSelfConnectionStatus int
  | EvFileRecv "32 word" "32 word" "32 word" "64 word" string
  | EvFileRecvChunk "32 word" "32 word" "64 word" "byte list"
  | EvFileChunkRequest "32 word" "32 word" "64 word" int
  | EvFileRecvControl "32 word" "32 word" int

definition setupCallbacks :: "tox_event \<Rightarrow> (world \<Rightarrow> state \<Rightarrow> state) option" where
  "setupCallbacks ev =
     (case ev of
        EvFriendRequest publicKey message \<Rightarrow>
          Some (\<lambda>w. handleFriendRequest w publicKey message)
      | EvFriendMessage friendID message messageType \<Rightarrow>
          Some (\<lambda>w. handleFriendMessage w friendID message messageType)
      | EvFriendName friendID name \<Rightarrow>
          Some (\<lambda>w. handleFriendNameChange w friendID name)
      | EvFileRecv friendID fileID knd fileSize filename \<Rightarrow>
          Some (\<lambda>w. handleFileReceive w friendID fileID (uint knd) fileSize filename)
      | EvFileRecvChunk friendID fileID position dat \<Rightarrow>
          Some (\<lambda>w. handleFileReceiveChunk w friendID fileID position dat)
      | EvFileChunkRequest friendID fileID position len \<Rightarrow>
          Some (\<lambda>w. handleFileChunkRequest w friendID fileID position len)
      | _ \<Rightarrow> None)"

definition deliver :: "world \<Rightarrow> tox_event \<Rightarrow> state \<Rightarrow> state" where
  "deliver w ev s = (case setupCallbacks ev of None \<Rightarrow> s | Some callback \<Rightarrow> callback w s)"

section \<open>A scenario\<close>

text \<open>
  One friend, Bob, known under the number 0, with two of his pipes registered and
  present in the file system; a world in which every call of the operating system and
  of the engine succeeds and the local time is 10:00:00; the same world 4000 seconds
  later.
\<close>

definition example_config :: Config where
  "example_config =
     \<lparr>ConfigDir = ''/r'', Debug = False, Name_cfg = ''me'', StatusMessage_cfg = ''hello'',
      AutoAcceptFiles = False, MaxFileSize = 104857600, SaveFile = ''/r/ratox.tox''\<rparr>"

definition example_world :: world where
  "example_world =
     \<lparr>now = 36000000000000, zone_offset = 0, umask = 0x12,
      os_OpenFile_err = (\<lambda>p. None), os_Fprintln_err = (\<lambda>p d. None),
      os_Stat_err = (\<lambda>p. None), os_Remove_err = (\<lambda>p. None),
      os_Mkfifo_err = (\<lambda>p. None), os_Chmod_err = (\<lambda>p. None),
      os_MkdirAll_err = (\<lambda>p. None), os_WriteFile_err = (\<lambda>p. None),
      sha256_Sum256 = (\<lambda>s. replicate 32 0),
      tox_AddFriendByPublicKey = (\<lambda>k. Inr 7),
      tox_SendFriendMessage = (\<lambda>f m t. None),
      tox_FileSend = (\<lambda>f k sz i n. Inr 1),
      tox_SelfSetName = (\<lambda>n. None), tox_SelfSetStatusMessage = (\<lambda>m. None),
      tox_GetSavedata = [], tox_GetFriends = Map.empty,
      tox_SelfGetAddress = ''00'', config_Save_err = (\<lambda>c. None)\<rparr>"

definition bob_key :: "byte list" where "bob_key = replicate 32 0xAB"

definition bob :: Friend where
  "bob = \<lparr>ID = 0, PublicKey = bob_key, Name = ''Bob'', Status = 0, Online = True, LastSeen = 0\<rparr>"

definition bob_dir :: string where
  "bob_dir = ''/r/abababababababababababababababababababababababababababababababab''"

definition pipe_node :: node where
  "pipe_node = \<lparr>kind = NamedPipe, perm = 0x180, size = 0\<rparr>"

definition out_fifo :: "path \<Rightarrow> FIFO" where
  "out_fifo p = \<lparr>Path = p, Mode = 0x180, IsInput = False, IsOutput = True, File = None, LastUsed = 0\<rparr>"

definition example_state :: state where
  "example_state =
     \<lparr>config = example_config, friends = [(0, bob)],
      fifos = [bob_dir @ ''/text_out'' \<mapsto> out_fifo (bob_dir @ ''/text_out''),
               bob_dir @ ''/status'' \<mapsto> out_fifo (bob_dir @ ''/status'')],
      fsys = [bob_dir @ ''/text_out'' \<mapsto> pipe_node, bob_dir @ ''/status'' \<mapsto> pipe_node],
      open_handles = {}, monitored = [], engine_calls = [], pipe_data = [], logs = []\<rparr>"

definition late_world :: world where
  "late_world = example_world\<lparr>now := 40000000000000\<rparr>"

section \<open>Properties of the library functions and of the scenario\<close>

lemma bob_hex: "EncodeToString bob_key = ''abababababababababababababababababababababababababababababababab''"
  by code_simp

lemma bob_text_out: "FriendFIFOPath example_config (EncodeToString bob_key) TextOut = bob_dir @ ''/text_out''"
  by code_simp


lemma bob_status: "FriendFIFOPath example_config (EncodeToString bob_key) Status_fifo = bob_dir @ ''/status''"
  by code_simp

lemma ex_status_lookup:
  "fifos example_state (bob_dir @ ''/status'') = Some (out_fifo (bob_dir @ ''/status''))"
  by (simp add: example_state_def)

lemma ex_status_not_global: "\<not> isGlobalFIFO (bob_dir @ ''/status'')"
  by code_simp

section \<open>Writing to a pipe\<close>

lemma writeFIFO_err_unchanged:
  "fst (writeFIFO w path d s) \<noteq> None \<Longrightarrow> snd (writeFIFO w path d s) = s"
  by (auto simp: writeFIFO_def split: option.splits if_splits)

lemma writeFIFO_ok_iff:
  "fst (writeFIFO w path d s) = None \<longleftrightarrow>
     (\<exists>fifo. fifos s path = Some fifo \<and> IsOutput fifo) \<and> os_OpenFile w path s = None
     \<and> os_Fprintln_err w path d = None"
  by (auto simp: writeFIFO_def split: option.splits if_splits)

lemma writeFIFO_ok_state:
  "fst (writeFIFO w path d s) = None \<Longrightarrow> fifos s path = Some fifo \<Longrightarrow>
   snd (writeFIFO w path d s) =
     s\<lparr>pipe_data := pipe_data s @ [(path, d @ [CHR 0x0A])],
       fifos := (fifos s)(path \<mapsto> fifo\<lparr>LastUsed := now w\<rparr>)\<rparr>"
  by (auto simp: writeFIFO_def split: option.splits if_splits)

lemma cleanup_lookup:
  "fifos (cleanupUnusedFIFOs (w::world) s) p =
     (case fifos s p of
        None \<Rightarrow> None
      | Some f \<Rightarrow> if LastUsed f < now w - 30 * Minute \<and> \<not> isGlobalFIFO p then None else Some f)"
  by (simp add: cleanupUnusedFIFOs_def Let_def)

text \<open>
  Claim C10. A write through \<open>writeFIFO\<close> returns no error only if the path is
  registered and its descriptor is an output descriptor; then the data and a newline
  are appended to the pipe and the time of last use of that descriptor, and of no
  other, becomes the time of the write. On a path that is not registered, or whose
  descriptor is not an output descriptor, it returns an error; whenever it returns an
  error the whole state is as before: nothing written, every time of last use
  unchanged. A path that the sweep has dropped is such an unregistered path.
\<close>

theorem writeFIFO_registered_output_only:
  "(fst (writeFIFO w path d s) = None \<longrightarrow>
      (\<exists>fifo. fifos s path = Some fifo \<and> IsOutput fifo
         \<and> fifos (snd (writeFIFO w path d s)) = (fifos s)(path \<mapsto> fifo\<lparr>LastUsed := now w\<rparr>))
      \<and> pipe_data (snd (writeFIFO w path d s)) = pipe_data s @ [(path, d @ [CHR 0x0A])])
   \<and> ((fifos s path = None \<or> (\<exists>fifo. fifos s path = Some fifo \<and> \<not> IsOutput fifo)) \<longrightarrow>
        fst (writeFIFO w path d s) \<noteq> None)
   \<and> (fst (writeFIFO w path d s) \<noteq> None \<longrightarrow> snd (writeFIFO w path d s) = s)
   \<and> (\<forall>(w0::world) fifo. fifos s path = Some fifo \<and> LastUsed fifo < now w0 - 30 * Minute
          \<and> \<not> isGlobalFIFO path \<longrightarrow>
        fst (writeFIFO w path d (cleanupUnusedFIFOs w0 s)) \<noteq> None
        \<and> snd (writeFIFO w path d (cleanupUnusedFIFOs w0 s)) = cleanupUnusedFIFOs w0 s)"
proof (intro conjI impI allI)
  assume ok: "fst (writeFIFO w path d s) = None"
  then obtain fifo where f: "fifos s path = Some fifo" "IsOutput fifo"
    by (auto simp: writeFIFO_ok_iff)
  from writeFIFO_ok_state [OF ok f(1)] f
  show "\<exists>fifo. fifos s path = Some fifo \<and> IsOutput fifo
         \<and> fifos (snd (writeFIFO w path d s)) = (fifos s)(path \<mapsto> fifo\<lparr>LastUsed := now w\<rparr>)"
    by simp
  from writeFIFO_ok_state [OF ok f(1)]
  show "pipe_data (snd (writeFIFO w path d s)) = pipe_data s @ [(path, d @ [CHR 0x0A])]"
    by simp
next
  assume "fifos s path = None \<or> (\<exists>fifo. fifos s path = Some fifo \<and> \<not> IsOutput fifo)"
  then show "fst (writeFIFO w path d s) \<noteq> None"
    by (auto simp: writeFIFO_ok_iff)
next
  assume "fst (writeFIFO w path d s) \<noteq> None"
  then show "snd (writeFIFO w path d s) = s" by (rule writeFIFO_err_unchanged)
next
  fix w0 :: world and fifo
  assume a: "fifos s path = Some fifo \<and> LastUsed fifo < now w0 - 30 * Minute \<and> \<not> isGlobalFIFO path"
  then have gone: "fifos (cleanupUnusedFIFOs w0 s) path = None"
    by (simp add: cleanup_lookup)
  then show e: "fst (writeFIFO w path d (cleanupUnusedFIFOs w0 s)) \<noteq> None"
    by (simp add: writeFIFO_ok_iff)
  then show "snd (writeFIFO w path d (cleanupUnusedFIFOs w0 s)) = cleanupUnusedFIFOs w0 s"
    by (rule writeFIFO_err_unchanged)
qed

theorem writeFIFO_registered_output_only_witness:
  "fst (writeFIFO example_world (bob_dir @ ''/status'') ''away'' example_state) = None
   \<and> pipe_data (snd (writeFIFO example_world (bob_dir @ ''/status'') ''away'' example_state))
       = [(bob_dir @ ''/status'', ''away'' @ [CHR 0x0A])]
   \<and> map_option LastUsed
        (fifos (snd (writeFIFO example_world (bob_dir @ ''/status'') ''away'' example_state))
           (bob_dir @ ''/status'')) = Some 36000000000000
   \<and> fst (writeFIFO example_world (bob_dir @ ''/nowhere'') ''away'' example_state) \<noteq> None
   \<and> snd (writeFIFO example_world (bob_dir @ ''/nowhere'') ''away'' example_state) = example_state
   \<and> fst (writeFIFO example_world (bob_dir @ ''/status'') ''away''
            (cleanupUnusedFIFOs late_world example_state)) \<noteq> None"
proof -
  let ?p = "bob_dir @ ''/status''"
  have ok: "fst (writeFIFO example_world ?p ''away'' example_state) = None"
    by (simp add: writeFIFO_ok_iff ex_status_lookup out_fifo_def os_OpenFile_def)
       (simp add: example_state_def example_world_def)
  have none: "fifos example_state (bob_dir @ ''/nowhere'') = None"
    by (simp add: example_state_def bob_dir_def)
  have old: "fifos example_state ?p = Some (out_fifo ?p)
     \<and> LastUsed (out_fifo ?p) < now late_world - 30 * Minute \<and> \<not> isGlobalFIFO ?p"
    by (simp add: ex_status_lookup ex_status_not_global out_fifo_def late_world_def Minute_def)
  note t = writeFIFO_registered_output_only [of example_world ?p "''away''" example_state]
  note t2 = writeFIFO_registered_output_only
              [of example_world "bob_dir @ ''/nowhere''" "''away''" example_state]
  from t ok ex_status_lookup have
    "pipe_data (snd (writeFIFO example_world ?p ''away'' example_state)) = [(?p, ''away'' @ [CHR 0x0A])]"
    "map_option LastUsed (fifos (snd (writeFIFO example_world ?p ''away'' example_state)) ?p)
       = Some 36000000000000"
    by (auto simp: example_state_def example_world_def)
  moreover from t2 none have
    "fst (writeFIFO example_world (bob_dir @ ''/nowhere'') ''away'' example_state) \<noteq> None"
    "snd (writeFIFO example_world (bob_dir @ ''/nowhere'') ''away'' example_state) = example_state"
    by blast+
  moreover from t old have
    "fst (writeFIFO example_world ?p ''away'' (cleanupUnusedFIFOs late_world example_state)) \<noteq> None"
    by blast
  ultimately show ?thesis using ok by simp
qed

end
